theory Spec2Isabelle
  imports Main
begin

section \<open>JavaScript containers\<close>

text \<open>
  A JavaScript \<open>Map\<close> iterates in insertion order; \<open>set\<close> on a key that is present
  replaces the value where it stands, \<open>set\<close> on a new key appends, \<open>delete\<close> removes the
  entry. It is modelled as an association list read from the left.
\<close>

type_synonym ('k, 'v) jsmap = "('k \<times> 'v) list"

fun map_get :: "'k \<Rightarrow> ('k, 'v) jsmap \<Rightarrow> 'v option" where
  "map_get k [] = None"
| "map_get k ((k', v) # m) = (if k' = k then Some v else map_get k m)"

fun map_set :: "'k \<Rightarrow> 'v \<Rightarrow> ('k, 'v) jsmap \<Rightarrow> ('k, 'v) jsmap" where
  "map_set k v [] = [(k, v)]"
| "map_set k v ((k', v') # m) = (if k' = k then (k, v) # m else (k', v') # map_set k v m)"

definition map_delete :: "'k \<Rightarrow> ('k, 'v) jsmap \<Rightarrow> ('k, 'v) jsmap" where
  "map_delete k m = filter (\<lambda>p. fst p \<noteq> k) m"

definition map_has :: "'k \<Rightarrow> ('k, 'v) jsmap \<Rightarrow> bool" where
  "map_has k m = (map_get k m \<noteq> None)"

definition map_values :: "('k, 'v) jsmap \<Rightarrow> 'v list" where
  "map_values m = map snd m"

definition map_size :: "('k, 'v) jsmap \<Rightarrow> nat" where
  "map_size m = length m"

text \<open>A JavaScript \<open>Set\<close> of strings: a list in insertion order, \<open>add\<close> of a member is a no-op.\<close>

type_synonym jsset = "string list"

definition set_add :: "string \<Rightarrow> jsset \<Rightarrow> jsset" where
  "set_add x s = (if x \<in> set s then s else s @ [x])"

definition set_delete :: "string \<Rightarrow> jsset \<Rightarrow> jsset" where
  "set_delete x s = filter (\<lambda>y. y \<noteq> x) s"

definition set_size :: "jsset \<Rightarrow> nat" where
  "set_size s = length s"

text \<open>\<open>String.prototype.includes\<close> and \<open>replace\<close> with a string pattern (first occurrence only).\<close>

definition starts_with :: "string \<Rightarrow> string \<Rightarrow> bool" where
  "starts_with s p = (take (length p) s = p)"

fun str_includes :: "string \<Rightarrow> string \<Rightarrow> bool" where
  "str_includes [] p = (p = [])"
| "str_includes (c # cs) p = (starts_with (c # cs) p \<or> str_includes cs p)"

fun replace_first :: "string \<Rightarrow> string \<Rightarrow> string \<Rightarrow> string" where
  "replace_first [] p r = (if p = [] then r else [])"
| "replace_first (c # cs) p r =
     (if starts_with (c # cs) p then r @ drop (length p) (c # cs)
      else c # replace_first cs p r)"


section \<open>Endpoint registry (endpointRegistry.ts)\<close>

datatype AgentType = Claude | Codex

fun agent_name :: "AgentType \<Rightarrow> string" where
  "agent_name Claude = ''claude''"
| "agent_name Codex = ''codex''"

datatype EndpointType = Local | CloudE2B

datatype EndpointStatus = EpSpawning | EpOnline | EpOffline | EpError

record Capabilities =
  maxSessions :: int
  supportedAgents :: "string list"

text \<open>
  Dates are timestamps handed in by the caller (\<open>new Date()\<close> reads the clock); one
  call of a function reads the clock once.
\<close>

record EndpointMetadata =
  extra :: "(string \<times> string) list"
  spawnedAt :: nat
  lastSeen :: "nat option"

record CloudEndpoint =
  ep_id :: string
  ep_type :: EndpointType
  ep_sandboxId :: string
  ep_status :: EndpointStatus
  ep_capabilities :: Capabilities
  ep_metadata :: EndpointMetadata

record EndpointRegistration =
  reg_endpointId :: string
  reg_type :: EndpointType
  reg_capabilities :: Capabilities
  reg_metadata :: "(string \<times> string) list"

record SessionAssignment =
  sa_endpointId :: string
  sa_sessionId :: string
  sa_assignedAt :: nat

record EndpointRegistry =
  endpoints :: "(string, CloudEndpoint) jsmap"
  sessionAssignments :: "(string, SessionAssignment) jsmap"
  endpointSessions :: "(string, jsset) jsmap"

definition empty_registry :: EndpointRegistry where
  "empty_registry = \<lparr>endpoints = [], sessionAssignments = [], endpointSessions = []\<rparr>"

definition registerEndpoint :: "EndpointRegistry \<Rightarrow> EndpointRegistration \<Rightarrow> nat \<Rightarrow> EndpointRegistry" where
  "registerEndpoint r registration now =
     (let endpoint = \<lparr>ep_id = reg_endpointId registration,
                      ep_type = reg_type registration,
                      ep_sandboxId = replace_first (reg_endpointId registration) ''e2b-'' '''',
                      ep_status = EpOnline,
                      ep_capabilities = reg_capabilities registration,
                      ep_metadata = \<lparr>extra = reg_metadata registration,
                                     spawnedAt = now, lastSeen = Some now\<rparr>\<rparr>
      in r\<lparr>endpoints := map_set (reg_endpointId registration) endpoint (endpoints r),
           endpointSessions := map_set (reg_endpointId registration) [] (endpointSessions r)\<rparr>)"

definition unregisterEndpoint :: "EndpointRegistry \<Rightarrow> string \<Rightarrow> EndpointRegistry" where
  "unregisterEndpoint r endpointId =
     (let r1 = r\<lparr>endpoints := map_delete endpointId (endpoints r)\<rparr>;
          r2 = (case map_get endpointId (endpointSessions r1) of
                  None \<Rightarrow> r1
                | Some sessions \<Rightarrow>
                    r1\<lparr>sessionAssignments := fold map_delete sessions (sessionAssignments r1)\<rparr>)
      in r2\<lparr>endpointSessions := map_delete endpointId (endpointSessions r2)\<rparr>)"

definition updateLastSeen :: "EndpointRegistry \<Rightarrow> string \<Rightarrow> nat \<Rightarrow> EndpointRegistry" where
  "updateLastSeen r endpointId now =
     (case map_get endpointId (endpoints r) of
        None \<Rightarrow> r
      | Some endpoint \<Rightarrow>
          r\<lparr>endpoints := map_set endpointId
                (endpoint\<lparr>ep_metadata := (ep_metadata endpoint)\<lparr>lastSeen := Some now\<rparr>\<rparr>)
                (endpoints r)\<rparr>)"

text \<open>\<open>this.endpointSessions.get(id)?.size || 0\<close>\<close>

definition currentSessions :: "EndpointRegistry \<Rightarrow> string \<Rightarrow> nat" where
  "currentSessions r endpointId =
     (case map_get endpointId (endpointSessions r) of None \<Rightarrow> 0 | Some s \<Rightarrow> set_size s)"

definition available :: "EndpointRegistry \<Rightarrow> AgentType \<Rightarrow> CloudEndpoint \<Rightarrow> bool" where
  "available r agentType endpoint =
     (if ep_status endpoint \<noteq> EpOnline then False
      else if agent_name agentType \<notin> set (supportedAgents (ep_capabilities endpoint)) then False
      else int (currentSessions r (ep_id endpoint)) < maxSessions (ep_capabilities endpoint))"

text \<open>
  The parameter defaults to \<open>'claude'\<close> when the caller passes \<open>undefined\<close>.
  \<open>Array.prototype.sort\<close> is stable, as is \<open>sort_key\<close>.
\<close>

definition availableEndpoints :: "EndpointRegistry \<Rightarrow> AgentType option \<Rightarrow> CloudEndpoint list" where
  "availableEndpoints r agentType =
     filter (available r (case agentType of None \<Rightarrow> Claude | Some a \<Rightarrow> a))
       (map_values (endpoints r))"

definition findAvailableEndpoint :: "EndpointRegistry \<Rightarrow> AgentType option \<Rightarrow> CloudEndpoint option" where
  "findAvailableEndpoint r agentType =
     (let availableEndpoints = availableEndpoints r agentType
      in if length availableEndpoints = 0 then None
         else Some (hd (sort_key (\<lambda>e. currentSessions r (ep_id e)) availableEndpoints)))"

definition assignSession ::
  "EndpointRegistry \<Rightarrow> string \<Rightarrow> string \<Rightarrow> nat \<Rightarrow> SessionAssignment \<times> EndpointRegistry" where
  "assignSession r sessionId endpointId now =
     (let assignment = \<lparr>sa_endpointId = endpointId, sa_sessionId = sessionId, sa_assignedAt = now\<rparr>;
          r1 = r\<lparr>sessionAssignments := map_set sessionId assignment (sessionAssignments r)\<rparr>;
          r2 = (case map_get endpointId (endpointSessions r1) of
                  None \<Rightarrow> r1
                | Some sessions \<Rightarrow>
                    r1\<lparr>endpointSessions :=
                         map_set endpointId (set_add sessionId sessions) (endpointSessions r1)\<rparr>)
      in (assignment, r2))"

definition unassignSession :: "EndpointRegistry \<Rightarrow> string \<Rightarrow> EndpointRegistry" where
  "unassignSession r sessionId =
     (case map_get sessionId (sessionAssignments r) of
        None \<Rightarrow> r
      | Some assignment \<Rightarrow>
          (let r1 = (case map_get (sa_endpointId assignment) (endpointSessions r) of
                       None \<Rightarrow> r
                     | Some sessions \<Rightarrow>
                         r\<lparr>endpointSessions :=
                              map_set (sa_endpointId assignment) (set_delete sessionId sessions)
                                (endpointSessions r)\<rparr>)
           in r1\<lparr>sessionAssignments := map_delete sessionId (sessionAssignments r1)\<rparr>))"

definition getSessionAssignment :: "EndpointRegistry \<Rightarrow> string \<Rightarrow> SessionAssignment option" where
  "getSessionAssignment r sessionId = map_get sessionId (sessionAssignments r)"

definition getAllEndpoints :: "EndpointRegistry \<Rightarrow> CloudEndpoint list" where
  "getAllEndpoints r = map_values (endpoints r)"

definition getEndpoint :: "EndpointRegistry \<Rightarrow> string \<Rightarrow> CloudEndpoint option" where
  "getEndpoint r endpointId = map_get endpointId (endpoints r)"


section \<open>E2B provider (e2bProvider.ts)\<close>

datatype CloudError =
    ApiKeyRequired
  | LocalhostServerUrl
  | SpawnFailed string
  | SeqAllocFailed string
  | DbCreateFailed string

record SpawnOptions =
  so_authToken :: string
  so_serverUrl :: string
  so_maxConcurrentSessions :: "int option"
  so_timeoutMs :: "int option"
  so_startRunner :: "bool option"

text \<open>
  The provider keeps the sandbox handles under their sandbox id. What the E2B service
  answers is not decided by this code: \<open>sb_create\<close> is the outcome of the steps of the
  \<open>try\<close> block up to \<open>E2BSandbox.create\<close> (setting the environment variable, importing
  the SDK, creating the sandbox): the sandbox id, or the message of the error thrown;
  \<open>sb_run\<close> is the outcome of \<open>sandbox.commands.run('npm start')\<close>: the process id, or
  the message of the error thrown.
\<close>

text \<open>
  Strings are lists of characters. The one string whose characters the code classifies
  is the API key (\<open>trim\<close> strips white space), so the key is kept as its UTF-16 code
  units.
\<close>

record E2BProvider =
  e2bApiKey :: "int list"
  sandboxTemplate :: string
  activeSandboxes :: "(string, unit) jsmap"

record SandboxOutcome =
  sb_create :: "string + string"
  sb_run :: "string + nat"

text \<open>
  The code units \<open>String.prototype.trim\<close> strips: the ECMAScript white space (TAB, VT,
  FF, U+FEFF and the space separators U+0020, U+00A0, U+1680, U+2000 to U+200A, U+202F,
  U+205F, U+3000) and the line terminators (LF, CR, U+2028, U+2029).
\<close>

definition is_whitespace :: "int \<Rightarrow> bool" where
  "is_whitespace c =
     (c \<in> set [0x09, 0x0A, 0x0B, 0x0C, 0x0D, 0x20, 0xA0, 0x1680,
                0x2028, 0x2029, 0x202F, 0x205F, 0x3000, 0xFEFF]
      \<or> (0x2000 \<le> c \<and> c \<le> 0x200A))"

text \<open>\<open>!key || key.trim() === ''\<close>\<close>

definition blank :: "int list \<Rightarrow> bool" where
  "blank s = (s = [] \<or> list_all is_whitespace s)"

text \<open>\<open>options.maxConcurrentSessions || 1\<close>: \<open>undefined\<close> and \<open>0\<close> are falsy.\<close>

definition or_one :: "int option \<Rightarrow> int" where
  "or_one n = (case n of None \<Rightarrow> 1 | Some k \<Rightarrow> if k = 0 then 1 else k)"

text \<open>
  \<open>spawnEndpoint\<close>. The two validations throw their own errors; an error thrown
  inside the \<open>try\<close> block is wrapped as "Failed to spawn E2B sandbox". The sandbox is
  stored in \<open>activeSandboxes\<close> before the runner is started, and stays there when
  starting the runner throws. The value of \<open>process.env.E2B_API_KEY\<close> is restored on
  every path and is not part of the state.
\<close>

definition spawnEndpoint ::
  "E2BProvider \<Rightarrow> SpawnOptions \<Rightarrow> SandboxOutcome \<Rightarrow> nat \<Rightarrow> (CloudError + CloudEndpoint) \<times> E2BProvider" where
  "spawnEndpoint p options outcome now =
     (if blank (e2bApiKey p) then (Inl ApiKeyRequired, p)
      else if str_includes (so_serverUrl options) ''localhost''
              \<or> str_includes (so_serverUrl options) ''127.0.0.1''
      then (Inl LocalhostServerUrl, p)
      else (case sb_create outcome of
              Inl message \<Rightarrow> (Inl (SpawnFailed message), p)
            | Inr sandboxId \<Rightarrow>
                (let p1 = p\<lparr>activeSandboxes := map_set sandboxId () (activeSandboxes p)\<rparr>;
                     endpoint = \<lparr>ep_id = ''e2b-'' @ sandboxId,
                                 ep_type = CloudE2B,
                                 ep_sandboxId = sandboxId,
                                 ep_status = EpOnline,
                                 ep_capabilities =
                                   \<lparr>maxSessions = or_one (so_maxConcurrentSessions options),
                                    supportedAgents = [''claude'']\<rparr>,
                                 ep_metadata = \<lparr>extra = [], spawnedAt = now, lastSeen = None\<rparr>\<rparr>
                 in if so_startRunner options \<noteq> Some False
                    then (case sb_run outcome of
                            Inl message \<Rightarrow> (Inl (SpawnFailed message), p1)
                          | Inr pid \<Rightarrow> (Inr endpoint, p1))
                    else (Inr endpoint, p1))))"


section \<open>Cloud session manager (cloudSessionManager.ts)\<close>

datatype SessionStatus = Pending | Starting | Running | Ended | Errored

record SessionOptions =
  opt_agentType :: AgentType
  opt_workingDirectory :: "string option"
  opt_initialMessage :: "string option"

record CreateCloudSessionOptions =
  cco_userId :: string
  cco_sessionId :: "string option"
  cco_workingDirectory :: "string option"
  cco_initialMessage :: "string option"
  cco_agentType :: "AgentType option"

record CloudSession =
  cs_sessionId :: string
  cs_userId :: string
  cs_endpointId :: string
  cs_status :: SessionStatus
  cs_createdAt :: nat
  cs_startedAt :: "nat option"
  cs_endedAt :: "nat option"
  cs_options :: "SessionOptions option"

text \<open>\<open>io\<close> is the Socket.IO server, \<open>null\<close> until \<open>setSocketIOServer\<close>; only its presence matters here.\<close>

record CloudSessionManager =
  e2bProvider :: E2BProvider
  endpointRegistry :: EndpointRegistry
  sessions :: "(string, CloudSession) jsmap"
  pendingEndpoints :: "(string, string) jsmap"
  serverUrl :: string
  io :: bool

definition new_manager :: "int list \<Rightarrow> string \<Rightarrow> CloudSessionManager" where
  "new_manager apiKey url =
     \<lparr>e2bProvider = \<lparr>e2bApiKey = apiKey, sandboxTemplate = ''vibe-runner'', activeSandboxes = []\<rparr>,
      endpointRegistry = empty_registry,
      sessions = [],
      pendingEndpoints = [],
      serverUrl = url,
      io = False\<rparr>"

text \<open>
  What leaves the process: the rows written to the durable store, the updates handed to
  the event router, the events emitted on sockets and rooms, and the rooms sockets joined.
\<close>

record SessionMetadata =
  md_path :: string
  md_host :: string
  md_version :: string
  md_os :: string
  md_machineId :: string
  md_homeDir :: string
  md_startedBy :: string
  md_lifecycleState :: string
  md_lifecycleStateSince :: nat
  md_flavor :: string

record DbSession =
  db_id :: string
  db_accountId :: string
  db_tag :: string
  db_metadata :: SessionMetadata
  db_dataEncryptionKey :: "string option"

record NewSessionUpdate =
  upd_userId :: string
  upd_session :: DbSession
  upd_seq :: int
  upd_id :: string

datatype Target = ToRoom string | ToSocket string

datatype Event =
    SessionStart string AgentType "string option" "string option"
  | EndpointRegistered string
  | ErrorMessage string
  | SessionStatusEvent string SessionStatus
  | SessionErrorEvent string string
  | MessageFromAgent string string
  | MessageSend string string

record World =
  manager :: CloudSessionManager
  dbSessions :: "DbSession list"
  updates :: "NewSessionUpdate list"
  emitted :: "(Target \<times> Event) list"
  rooms :: "(string \<times> string) list"

definition new_world :: "int list \<Rightarrow> string \<Rightarrow> World" where
  "new_world apiKey url =
     \<lparr>manager = new_manager apiKey url, dbSessions = [], updates = [], emitted = [], rooms = []\<rparr>"

definition setSocketIOServer :: "CloudSessionManager \<Rightarrow> CloudSessionManager" where
  "setSocketIOServer m = m\<lparr>io := True\<rparr>"

text \<open>
  The values a call to \<open>createCloudSession\<close> draws from outside: random bytes, the E2B
  service, the sequence allocator, the database and the clock.
\<close>

record CreateEnv =
  env_sessionId :: string
  env_authToken :: string
  env_sandbox :: SandboxOutcome
  env_seq :: "string + int"
  env_dbId :: "string + string"
  env_updateId :: string
  env_now :: nat

definition newEndpointOptions :: "CloudSessionManager \<Rightarrow> string \<Rightarrow> SpawnOptions" where
  "newEndpointOptions m authToken =
     \<lparr>so_authToken = authToken, so_serverUrl = serverUrl m,
      so_maxConcurrentSessions = Some 1, so_timeoutMs = Some 3600000,
      so_startRunner = None\<rparr>"

definition spawnNewEndpoint ::
  "CloudSessionManager \<Rightarrow> CreateEnv \<Rightarrow> (CloudError + CloudEndpoint) \<times> CloudSessionManager" where
  "spawnNewEndpoint m env =
     (let authToken = env_authToken env;
          spawned = spawnEndpoint (e2bProvider m) (newEndpointOptions m authToken)
                      (env_sandbox env) (env_now env);
          m1 = m\<lparr>e2bProvider := snd spawned\<rparr>
      in case fst spawned of
           Inl err \<Rightarrow> (Inl err, m1)
         | Inr endpoint \<Rightarrow>
             (Inr endpoint, m1\<lparr>pendingEndpoints := map_set (ep_id endpoint) authToken (pendingEndpoints m1)\<rparr>))"

definition session_room :: "string \<Rightarrow> string" where
  "session_room sessionId = ''session:'' @ sessionId"

definition endpoint_room :: "string \<Rightarrow> string" where
  "endpoint_room endpointId = ''endpoint:'' @ endpointId"

definition startSessionOnEndpoint :: "World \<Rightarrow> string \<Rightarrow> CreateCloudSessionOptions \<Rightarrow> World" where
  "startSessionOnEndpoint w sessionId options =
     (case map_get sessionId (sessions (manager w)) of
        None \<Rightarrow> w
      | Some session \<Rightarrow>
          if \<not> io (manager w) then w
          else w\<lparr>emitted := emitted w @
                    [(ToRoom (endpoint_room (cs_endpointId session)),
                      SessionStart sessionId
                        (case cco_agentType options of None \<Rightarrow> Claude | Some a \<Rightarrow> a)
                        (cco_workingDirectory options) (cco_initialMessage options))],
                 manager := (manager w)\<lparr>sessions :=
                    map_set sessionId (session\<lparr>cs_status := Starting\<rparr>) (sessions (manager w))\<rparr>\<rparr>)"

fun startPendingLoop :: "World \<Rightarrow> string \<Rightarrow> CloudSession list \<Rightarrow> World" where
  "startPendingLoop w endpointId [] = w"
| "startPendingLoop w endpointId (session # rest) =
     (case cs_options session of
        None \<Rightarrow> startPendingLoop w endpointId rest
      | Some options \<Rightarrow>
          if \<not> io (manager w) then startPendingLoop w endpointId rest
          else startPendingLoop
                 (w\<lparr>emitted := emitted w @
                      [(ToRoom (endpoint_room endpointId),
                        SessionStart (cs_sessionId session) (opt_agentType options)
                          (opt_workingDirectory options) (opt_initialMessage options))]\<rparr>)
                 endpointId rest)"

definition startPendingSessionsForEndpoint :: "World \<Rightarrow> string \<Rightarrow> World" where
  "startPendingSessionsForEndpoint w endpointId =
     (let pendingSessions = filter (\<lambda>s. cs_endpointId s = endpointId \<and> cs_status s = Pending)
                              (map_values (sessions (manager w)))
      in startPendingLoop w endpointId pendingSessions)"


text \<open>\<open>x || d\<close> on an optional string: \<open>undefined\<close> and the empty string are falsy.\<close>

definition str_or :: "string option \<Rightarrow> string \<Rightarrow> string" where
  "str_or x d = (case x of None \<Rightarrow> d | Some v \<Rightarrow> if v = [] then d else v)"

text \<open>
  \<open>createCloudSession\<close>, in the order of its statements: the placement (an available
  endpoint, or a new one), the two awaited calls to the sequence allocator and the
  database, then the statements that follow the database write. An awaited call that
  rejects ends the function with that error, and what was written before stays written.
  The session object stored in the table is the object returned, so the caller sees the
  status set by \<open>startSessionOnEndpoint\<close>.
\<close>

definition placeEndpoint ::
  "CloudSessionManager \<Rightarrow> CreateCloudSessionOptions \<Rightarrow> CreateEnv
     \<Rightarrow> (CloudError + CloudEndpoint) \<times> CloudSessionManager" where
  "placeEndpoint m options env =
     (case findAvailableEndpoint (endpointRegistry m) (cco_agentType options) of
        Some endpoint \<Rightarrow> (Inr endpoint, m)
      | None \<Rightarrow> spawnNewEndpoint m env)"

definition commitSession ::
  "World \<Rightarrow> CloudEndpoint \<Rightarrow> CreateCloudSessionOptions \<Rightarrow> CreateEnv \<Rightarrow> string \<Rightarrow> int \<Rightarrow> string
     \<Rightarrow> CloudSession \<times> World" where
  "commitSession w1 endpoint options env tag updSeq dbId =
     (let workingDir = str_or (cco_workingDirectory options) ''/home/user'';
          endpointShortId = (if length (ep_id endpoint) \<ge> 8 then take 8 (ep_id endpoint)
                             else ep_id endpoint);
          metadata = \<lparr>md_path = workingDir,
                      md_host = ''cloud-'' @ endpointShortId,
                      md_version = ''cloud'',
                      md_os = ''linux'',
                      md_machineId = ''cloud-'' @ ep_id endpoint,
                      md_homeDir = ''/home/user'',
                      md_startedBy = ''cloud'',
                      md_lifecycleState = ''running'',
                      md_lifecycleStateSince = env_now env,
                      md_flavor = agent_name (case cco_agentType options of
                                                None \<Rightarrow> Claude | Some a \<Rightarrow> a)\<rparr>;
          dbSession = \<lparr>db_id = dbId, db_accountId = cco_userId options, db_tag = tag,
                       db_metadata = metadata, db_dataEncryptionKey = None\<rparr>;
          w2 = w1\<lparr>dbSessions := dbSessions w1 @ [dbSession],
                  updates := updates w1 @
                    [\<lparr>upd_userId = cco_userId options, upd_session = dbSession,
                      upd_seq = updSeq, upd_id = env_updateId env\<rparr>]\<rparr>;
          session = \<lparr>cs_sessionId = dbId,
                     cs_userId = cco_userId options,
                     cs_endpointId = ep_id endpoint,
                     cs_status = Pending,
                     cs_createdAt = env_now env,
                     cs_startedAt = None,
                     cs_endedAt = None,
                     cs_options = Some \<lparr>opt_agentType = (case cco_agentType options of
                                                           None \<Rightarrow> Claude | Some a \<Rightarrow> a),
                                        opt_workingDirectory = cco_workingDirectory options,
                                        opt_initialMessage = cco_initialMessage options\<rparr>\<rparr>;
          m2 = (manager w2)\<lparr>sessions := map_set dbId session (sessions (manager w2))\<rparr>;
          m3 = m2\<lparr>endpointRegistry :=
                    snd (assignSession (endpointRegistry m2) dbId (ep_id endpoint) (env_now env))\<rparr>;
          w3 = w2\<lparr>manager := m3\<rparr>;
          w4 = (case getEndpoint (endpointRegistry m3) (ep_id endpoint) of
                  None \<Rightarrow> w3
                | Some endpointInfo \<Rightarrow>
                    if ep_status endpointInfo = EpOnline \<and> io m3
                    then startSessionOnEndpoint w3 dbId options
                    else w3)
      in (case map_get dbId (sessions (manager w4)) of None \<Rightarrow> session | Some stored \<Rightarrow> stored,
          w4))"

definition createCloudSession ::
  "World \<Rightarrow> CreateCloudSessionOptions \<Rightarrow> CreateEnv \<Rightarrow> (CloudError + CloudSession) \<times> World" where
  "createCloudSession w options env =
     (let sessionId = str_or (cco_sessionId options) (env_sessionId env);
          tag = ''cloud-'' @ sessionId;
          placed = placeEndpoint (manager w) options env;
          w1 = w\<lparr>manager := snd placed\<rparr>
      in case fst placed of
           Inl err \<Rightarrow> (Inl err, w1)
         | Inr endpoint \<Rightarrow>
            (case env_seq env of
               Inl message \<Rightarrow> (Inl (SeqAllocFailed message), w1)
             | Inr updSeq \<Rightarrow>
                (case env_dbId env of
                   Inl message \<Rightarrow> (Inl (DbCreateFailed message), w1)
                 | Inr dbId \<Rightarrow>
                    (let committed = commitSession w1 endpoint options env tag updSeq dbId
                     in (Inr (fst committed), snd committed)))))"

definition sessionStarted :: "CloudSessionManager \<Rightarrow> string \<Rightarrow> nat \<Rightarrow> CloudSessionManager" where
  "sessionStarted m sessionId now =
     (case map_get sessionId (sessions m) of
        None \<Rightarrow> m
      | Some session \<Rightarrow>
          m\<lparr>sessions := map_set sessionId
                (session\<lparr>cs_status := Running, cs_startedAt := Some now\<rparr>) (sessions m)\<rparr>)"

text \<open>
  \<open>cleanupIdleEndpoints\<close> changes nothing: it logs the endpoints that have no running
  session. The list it logs:
\<close>

definition cleanupIdleEndpoints :: "CloudSessionManager \<Rightarrow> string list" where
  "cleanupIdleEndpoints m =
     map ep_id (filter (\<lambda>endpoint.
        find (\<lambda>s. cs_endpointId s = ep_id endpoint \<and> cs_status s = Running)
          (map_values (sessions m)) = None)
       (getAllEndpoints (endpointRegistry m)))"

definition sessionEnded :: "CloudSessionManager \<Rightarrow> string \<Rightarrow> nat \<Rightarrow> CloudSessionManager" where
  "sessionEnded m sessionId now =
     (case map_get sessionId (sessions m) of
        None \<Rightarrow> m
      | Some session \<Rightarrow>
          m\<lparr>sessions := map_set sessionId
                (session\<lparr>cs_status := Ended, cs_endedAt := Some now\<rparr>) (sessions m),
            endpointRegistry := unassignSession (endpointRegistry m) sessionId\<rparr>)"

definition sessionError :: "CloudSessionManager \<Rightarrow> string \<Rightarrow> nat \<Rightarrow> CloudSessionManager" where
  "sessionError m sessionId now =
     (case map_get sessionId (sessions m) of
        None \<Rightarrow> m
      | Some session \<Rightarrow>
          m\<lparr>sessions := map_set sessionId
                (session\<lparr>cs_status := Errored, cs_endedAt := Some now\<rparr>) (sessions m),
            endpointRegistry := unassignSession (endpointRegistry m) sessionId\<rparr>)"

definition getSession :: "CloudSessionManager \<Rightarrow> string \<Rightarrow> CloudSession option" where
  "getSession m sessionId = map_get sessionId (sessions m)"

text \<open>\<open>expected && expected === token\<close>: an empty expected token is falsy.\<close>

definition validateEndpointToken :: "CloudSessionManager \<Rightarrow> string \<Rightarrow> string \<Rightarrow> bool" where
  "validateEndpointToken m endpointId token =
     (case map_get endpointId (pendingEndpoints m) of
        None \<Rightarrow> False
      | Some expected \<Rightarrow> if expected \<noteq> [] \<and> expected = token then True else False)"

definition findEndpointByToken :: "CloudSessionManager \<Rightarrow> string \<Rightarrow> string option" where
  "findEndpointByToken m token =
     map_option fst (find (\<lambda>p. snd p = token) (pendingEndpoints m))"

text \<open>
  \<open>getStats\<close>; of the registry's statistics the three counts are kept. The capacity (a
  sum of \<open>maxSessions\<close> in floating point) and the utilisation (a floating-point ratio)
  are left out.
\<close>

record RegistryStats =
  st_totalEndpoints :: nat
  st_onlineEndpoints :: nat
  st_totalSessions :: nat

record ManagerStats =
  totalSessions :: nat
  activeSessions :: nat
  endpointStats :: RegistryStats

definition registryStats :: "EndpointRegistry \<Rightarrow> RegistryStats" where
  "registryStats r =
     (let onlineEndpoints = filter (\<lambda>e. ep_status e = EpOnline) (map_values (endpoints r))
      in \<lparr>st_totalEndpoints = length (map_values (endpoints r)),
          st_onlineEndpoints = length onlineEndpoints,
          st_totalSessions = map_size (sessionAssignments r)\<rparr>)"

definition getStats :: "CloudSessionManager \<Rightarrow> ManagerStats" where
  "getStats m =
     \<lparr>totalSessions = map_size (sessions m),
      activeSessions = length (filter (\<lambda>s. cs_status s = Running) (map_values (sessions m))),
      endpointStats = registryStats (endpointRegistry m)\<rparr>"

section \<open>Socket handlers (handlers.ts)\<close>

text \<open>The payload of \<open>endpoint:register\<close>: the registration and an optional \<open>authToken\<close>.\<close>

record RegisterData =
  rd_endpointId :: string
  rd_type :: EndpointType
  rd_capabilities :: Capabilities
  rd_metadata :: "(string \<times> string) list"
  rd_authToken :: "string option"

definition registration_of :: "RegisterData \<Rightarrow> EndpointRegistration" where
  "registration_of d =
     \<lparr>reg_endpointId = rd_endpointId d, reg_type = rd_type d,
      reg_capabilities = rd_capabilities d, reg_metadata = rd_metadata d\<rparr>"

text \<open>Truthiness of an optional string: \<open>undefined\<close> and the empty string are falsy.\<close>

definition truthy :: "string option \<Rightarrow> bool" where
  "truthy x = (case x of None \<Rightarrow> False | Some v \<Rightarrow> v \<noteq> [])"

definition setupCloudEndpointHandlers :: "World \<Rightarrow> World" where
  "setupCloudEndpointHandlers w = w\<lparr>manager := setSocketIOServer (manager w)\<rparr>"

definition on_endpoint_register :: "World \<Rightarrow> string \<Rightarrow> RegisterData \<Rightarrow> nat \<Rightarrow> World" where
  "on_endpoint_register w socketId d now =
     (let isValid = validateEndpointToken (manager w) (rd_endpointId d) (str_or (rd_authToken d) [])
      in if \<not> isValid \<and> truthy (rd_authToken d)
         then w\<lparr>emitted := emitted w @ [(ToSocket socketId, ErrorMessage ''Invalid auth token'')]\<rparr>
         else
           (let w1 = w\<lparr>manager := (manager w)\<lparr>endpointRegistry :=
                          registerEndpoint (endpointRegistry (manager w)) (registration_of d) now\<rparr>\<rparr>;
                w2 = w1\<lparr>rooms := rooms w1 @ [(socketId, endpoint_room (rd_endpointId d))]\<rparr>;
                w3 = w2\<lparr>emitted := emitted w2 @
                          [(ToSocket socketId, EndpointRegistered (rd_endpointId d))]\<rparr>
            in startPendingSessionsForEndpoint w3 (rd_endpointId d)))"

definition on_endpoint_unregister :: "World \<Rightarrow> string \<Rightarrow> World" where
  "on_endpoint_unregister w endpointId =
     w\<lparr>manager := (manager w)\<lparr>endpointRegistry :=
          unregisterEndpoint (endpointRegistry (manager w)) endpointId\<rparr>\<rparr>"

definition on_session_started :: "World \<Rightarrow> string \<Rightarrow> nat \<Rightarrow> World" where
  "on_session_started w sessionId now =
     w\<lparr>manager := sessionStarted (manager w) sessionId now,
       emitted := emitted w @ [(ToRoom (session_room sessionId), SessionStatusEvent sessionId Running)]\<rparr>"

definition on_session_ended :: "World \<Rightarrow> string \<Rightarrow> nat \<Rightarrow> World" where
  "on_session_ended w sessionId now =
     w\<lparr>manager := sessionEnded (manager w) sessionId now,
       emitted := emitted w @ [(ToRoom (session_room sessionId), SessionStatusEvent sessionId Ended)]\<rparr>"

definition on_session_error :: "World \<Rightarrow> string \<Rightarrow> string \<Rightarrow> nat \<Rightarrow> World" where
  "on_session_error w sessionId err now =
     w\<lparr>manager := sessionError (manager w) sessionId now,
       emitted := emitted w @ [(ToRoom (session_room sessionId), SessionErrorEvent sessionId err)]\<rparr>"

definition on_message_from_claude :: "World \<Rightarrow> string \<Rightarrow> string \<Rightarrow> World" where
  "on_message_from_claude w sessionId message =
     w\<lparr>emitted := emitted w @ [(ToRoom (session_room sessionId), MessageFromAgent sessionId message)]\<rparr>"

definition on_message_to_claude :: "World \<Rightarrow> string \<Rightarrow> string \<Rightarrow> string \<Rightarrow> World" where
  "on_message_to_claude w socketId sessionId message =
     (case getSessionAssignment (endpointRegistry (manager w)) sessionId of
        None \<Rightarrow>
          w\<lparr>emitted := emitted w @
               [(ToSocket socketId, ErrorMessage ''Session not found or not assigned to endpoint'')]\<rparr>
      | Some assignment \<Rightarrow>
          w\<lparr>emitted := emitted w @
               [(ToRoom (endpoint_room (sa_endpointId assignment)), MessageSend sessionId message)]\<rparr>)"

definition on_endpoint_heartbeat :: "World \<Rightarrow> string \<Rightarrow> nat \<Rightarrow> World" where
  "on_endpoint_heartbeat w endpointId now =
     w\<lparr>manager := (manager w)\<lparr>endpointRegistry :=
          updateLastSeen (endpointRegistry (manager w)) endpointId now\<rparr>\<rparr>"

text \<open>
  Everything that reaches the server: the installation of the handlers, the HTTP route
  that creates a session, and the socket events.
\<close>

datatype ServerEvent =
    Setup
  | CreateSession CreateCloudSessionOptions CreateEnv
  | EndpointRegister string RegisterData nat
  | EndpointUnregister string
  | SessionStartedReport string nat
  | SessionEndedReport string nat
  | SessionErrorReport string string nat
  | MessageFromClaude string string
  | MessageToClaude string string string
  | EndpointHeartbeat string nat
  | Disconnect string

fun handle :: "World \<Rightarrow> ServerEvent \<Rightarrow> World" where
  "handle w Setup = setupCloudEndpointHandlers w"
| "handle w (CreateSession options env) = snd (createCloudSession w options env)"
| "handle w (EndpointRegister socketId d now) = on_endpoint_register w socketId d now"
| "handle w (EndpointUnregister endpointId) = on_endpoint_unregister w endpointId"
| "handle w (SessionStartedReport sessionId now) = on_session_started w sessionId now"
| "handle w (SessionEndedReport sessionId now) = on_session_ended w sessionId now"
| "handle w (SessionErrorReport sessionId err now) = on_session_error w sessionId err now"
| "handle w (MessageFromClaude sessionId message) = on_message_from_claude w sessionId message"
| "handle w (MessageToClaude socketId sessionId message) = on_message_to_claude w socketId sessionId message"
| "handle w (EndpointHeartbeat endpointId now) = on_endpoint_heartbeat w endpointId now"
| "handle w (Disconnect socketId) = w"

fun handle_all :: "World \<Rightarrow> ServerEvent list \<Rightarrow> World" where
  "handle_all w [] = w"
| "handle_all w (e # es) = handle_all (handle w e) es"


section \<open>Cloud runner (vibe-runner)\<close>

datatype RunnerStatus = RStarting | RRunning | REnded | RError

record RunnerSession =
  rs_sessionId :: string
  rs_process :: "nat option"
  rs_status :: RunnerStatus
  rs_agentType :: AgentType
  rs_workingDirectory :: "string option"

record StartData =
  sd_sessionId :: string
  sd_agentType :: AgentType
  sd_workingDirectory :: "string option"
  sd_initialMessage :: "string option"

datatype RunnerEmit =
    EmitSessionStarted string string
  | EmitSessionError string string
  | EmitSessionEnded string string

text \<open>
  \<open>rn_socket\<close> says whether the socket exists (\<open>this.socket?.emit\<close> is skipped when it
  is \<open>null\<close>), \<open>rn_sent\<close> lists what was emitted to the server and \<open>rn_spawned\<close> the
  process ids of the agents spawned.
\<close>

record CloudRunner =
  rn_endpointId :: string
  rn_maxConcurrentSessions :: int
  rn_activeSessions :: "(string, RunnerSession) jsmap"
  rn_socket :: bool
  rn_sent :: "RunnerEmit list"
  rn_spawned :: "nat list"

definition runner_emit :: "CloudRunner \<Rightarrow> RunnerEmit \<Rightarrow> CloudRunner" where
  "runner_emit rn e = (if rn_socket rn then rn\<lparr>rn_sent := rn_sent rn @ [e]\<rparr> else rn)"

text \<open>
  \<open>startSession\<close>; \<open>spawned\<close> is what \<open>spawnAgent\<close> does: the process id of the agent, or
  the message of the error it throws.
\<close>

definition startSession :: "CloudRunner \<Rightarrow> StartData \<Rightarrow> string + nat \<Rightarrow> CloudRunner" where
  "startSession rn d spawned =
     (if int (map_size (rn_activeSessions rn)) \<ge> rn_maxConcurrentSessions rn
      then runner_emit rn (EmitSessionError (sd_sessionId d) ''Max concurrent sessions reached'')
      else if map_has (sd_sessionId d) (rn_activeSessions rn) then rn
      else
        (let session = \<lparr>rs_sessionId = sd_sessionId d, rs_process = None, rs_status = RStarting,
                        rs_agentType = sd_agentType d,
                        rs_workingDirectory = Some (str_or (sd_workingDirectory d) ''/home/user'')\<rparr>;
             rn1 = rn\<lparr>rn_activeSessions := map_set (sd_sessionId d) session (rn_activeSessions rn)\<rparr>
         in case spawned of
              Inr pid \<Rightarrow>
                runner_emit
                  (rn1\<lparr>rn_activeSessions :=
                          map_set (sd_sessionId d) (session\<lparr>rs_process := Some pid, rs_status := RRunning\<rparr>)
                            (rn_activeSessions rn1),
                        rn_spawned := rn_spawned rn1 @ [pid]\<rparr>)
                  (EmitSessionStarted (sd_sessionId d) (rn_endpointId rn))
            | Inl message \<Rightarrow>
                runner_emit
                  (rn1\<lparr>rn_activeSessions := map_delete (sd_sessionId d) (rn_activeSessions rn1)\<rparr>)
                  (EmitSessionError (sd_sessionId d) message)))"

section \<open>Operation sequences and the properties checked\<close>

datatype RegistryOp =
    OpRegister EndpointRegistration nat
  | OpUnregister string
  | OpAssign string string nat
  | OpUnassign string

fun apply_op :: "EndpointRegistry \<Rightarrow> RegistryOp \<Rightarrow> EndpointRegistry" where
  "apply_op r (OpRegister registration now) = registerEndpoint r registration now"
| "apply_op r (OpUnregister endpointId) = unregisterEndpoint r endpointId"
| "apply_op r (OpAssign sessionId endpointId now) = snd (assignSession r sessionId endpointId now)"
| "apply_op r (OpUnassign sessionId) = unassignSession r sessionId"

fun apply_ops :: "EndpointRegistry \<Rightarrow> RegistryOp list \<Rightarrow> EndpointRegistry" where
  "apply_ops r [] = r"
| "apply_ops r (x # xs) = apply_ops (apply_op r x) xs"

text \<open>
  The sessions assigned to an endpoint are those whose recorded assignment names it:
  the entries of \<open>sessionAssignments\<close> with that \<open>endpointId\<close>. (The registry also keeps
  a set per endpoint, \<open>endpointSessions\<close>, whose size \<open>findAvailableEndpoint\<close> reads.)
\<close>

definition assignedSessions :: "EndpointRegistry \<Rightarrow> string \<Rightarrow> string list" where
  "assignedSessions r endpointId =
     map fst (filter (\<lambda>p. sa_endpointId (snd p) = endpointId) (sessionAssignments r))"






text \<open>Terminal states of a session.\<close>

definition terminal :: "SessionStatus \<Rightarrow> bool" where
  "terminal st = (st = Ended \<or> st = Errored)"

text \<open>A table \<open>m'\<close> retains a table \<open>m\<close> when no key of \<open>m\<close> is lost and the size has not shrunk.\<close>

definition retains :: "('k, 'v) jsmap \<Rightarrow> ('k, 'v) jsmap \<Rightarrow> bool" where
  "retains m m' = (length m \<le> length m' \<and> (\<forall>k. map_has k m \<longrightarrow> map_has k m'))"




subsection \<open>Concrete inputs\<close>

definition caps1 :: Capabilities where
  "caps1 = \<lparr>maxSessions = 1, supportedAgents = [''claude'', ''codex'']\<rparr>"

definition reg_a :: EndpointRegistration where
  "reg_a = \<lparr>reg_endpointId = ''e2b-a'', reg_type = CloudE2B, reg_capabilities = caps1, reg_metadata = []\<rparr>"

text \<open>The API key \<open>e2b_key\<close>, as code units.\<close>

definition api_key :: "int list" where
  "api_key = [0x65, 0x32, 0x62, 0x5F, 0x6B, 0x65, 0x79]"

text \<open>A server whose handlers are installed, reachable by sandboxes under a public address.\<close>

definition server0 :: World where
  "server0 = setupCloudEndpointHandlers (new_world api_key ''https://vibe.example.com'')"


definition create_options :: CreateCloudSessionOptions where
  "create_options = \<lparr>cco_userId = ''u1'', cco_sessionId = None, cco_workingDirectory = None,
                     cco_initialMessage = Some ''hello'', cco_agentType = Some Claude\<rparr>"

definition create_env :: CreateEnv where
  "create_env = \<lparr>env_sessionId = ''0f'', env_authToken = ''tok1'',
                 env_sandbox = \<lparr>sb_create = Inr ''sb1'', sb_run = Inr 42\<rparr>,
                 env_seq = Inr 7, env_dbId = Inr ''S1'', env_updateId = ''k1'', env_now = 10\<rparr>"

definition register_sb1 :: "string option \<Rightarrow> RegisterData" where
  "register_sb1 token = \<lparr>rd_endpointId = ''e2b-sb1'', rd_type = CloudE2B, rd_capabilities = caps1,
                          rd_metadata = [], rd_authToken = token\<rparr>"

definition runner_busy :: CloudRunner where
  "runner_busy =
     \<lparr>rn_endpointId = ''e2b-sb1'', rn_maxConcurrentSessions = 1,
      rn_activeSessions = [(''S1'', \<lparr>rs_sessionId = ''S1'', rs_process = Some 42, rs_status = RRunning,
                                     rs_agentType = Claude, rs_workingDirectory = Some ''/home/user''\<rparr>)],
      rn_socket = True, rn_sent = [], rn_spawned = [42]\<rparr>"

definition start_S1 :: StartData where
  "start_S1 = \<lparr>sd_sessionId = ''S1'', sd_agentType = Claude, sd_workingDirectory = None,
               sd_initialMessage = Some ''hello''\<rparr>"

text \<open>One endpoint with \<open>maxSessions = 1\<close> that holds the session \<open>s1\<close>.\<close>

definition one_assigned :: EndpointRegistry where
  "one_assigned = apply_ops empty_registry [OpRegister reg_a 0, OpAssign ''s1'' ''e2b-a'' 1]"

text \<open>
  Scenario A: a session is created while no endpoint is registered, then the endpoint
  provisioned for it registers with the token issued to it.
\<close>

definition scenario_created :: World where
  "scenario_created = snd (createCloudSession server0 create_options create_env)"

definition scenario_registered :: World where
  "scenario_registered = on_endpoint_register scenario_created ''sock1'' (register_sb1 (Some ''tok1'')) 20"


text \<open>A second request, made after the endpoint of the first has registered.\<close>

definition create_env2 :: CreateEnv where
  "create_env2 = \<lparr>env_sessionId = ''1a'', env_authToken = ''tok2'',
                  env_sandbox = \<lparr>sb_create = Inr ''sb2'', sb_run = Inr 43\<rparr>,
                  env_seq = Inr 8, env_dbId = Inr ''S2'', env_updateId = ''k2'', env_now = 30\<rparr>"

definition scenario_second :: World where
  "scenario_second = snd (createCloudSession scenario_registered create_options create_env2)"



section \<open>Verification\<close>

subsection \<open>Lemmas on the containers\<close>

lemma map_get_set: "map_get k' (map_set k v m) = (if k = k' then Some v else map_get k' m)"
  by (induction m) auto


lemma length_map_set: "length m \<le> length (map_set k v m)"
  by (induction m) auto

lemma length_set_delete: "length (set_delete x s) \<le> length s"
  by (simp add: set_delete_def)

lemma length_set_add: "length (set_add x s) \<le> Suc (length s)"
  by (simp add: set_add_def)

subsection \<open>The registry\<close>

































text \<open>
  C8, evaluated. Registering again an endpoint that holds the session \<open>s1\<close> replaces its
  assignment set by an empty one, while the assignment of \<open>s1\<close> to it stays recorded: the
  registry after the second registration differs from the registry before it.
\<close>

theorem C8_reregistration_empties_assignment_set:
  "map_get ''e2b-a'' (endpointSessions one_assigned) = Some [''s1'']
   \<and> map_get ''e2b-a'' (endpointSessions (registerEndpoint one_assigned reg_a 0)) = Some []
   \<and> currentSessions one_assigned ''e2b-a'' = 1
   \<and> currentSessions (registerEndpoint one_assigned reg_a 0) ''e2b-a'' = 0
   \<and> map_option sa_endpointId (getSessionAssignment (registerEndpoint one_assigned reg_a 0) ''s1'')
       = Some ''e2b-a''
   \<and> registerEndpoint one_assigned reg_a 0 \<noteq> one_assigned"
  by code_simp

text \<open>
  C6, evaluated. After scenario A the endpoint \<open>e2b-sb1\<close> is registered with
  \<open>maxSessions = 1\<close> and the session \<open>S1\<close> is assigned to it: it is at capacity. Its
  assignment set is empty, because the assignment was made before the registration
  installed the set, so \<open>findAvailableEndpoint\<close> returns it, and a second
  \<open>createCloudSession\<close> assigns \<open>S2\<close> to it without provisioning anything. The same
  happens in the registry alone when an endpoint that holds a session registers again.
\<close>

theorem C6_returns_endpoint_at_capacity:
  "map_option ep_id (findAvailableEndpoint (endpointRegistry (manager scenario_registered)) (Some Claude))
     = Some ''e2b-sb1''
   \<and> assignedSessions (endpointRegistry (manager scenario_registered)) ''e2b-sb1'' = [''S1'']
   \<and> map_option ep_capabilities (getEndpoint (endpointRegistry (manager scenario_registered)) ''e2b-sb1'')
       = Some \<lparr>maxSessions = 1, supportedAgents = [''claude'', ''codex'']\<rparr>
   \<and> currentSessions (endpointRegistry (manager scenario_registered)) ''e2b-sb1'' = 0
   \<and> map_sum id cs_endpointId (fst (createCloudSession scenario_registered create_options create_env2))
       = Inr ''e2b-sb1''
   \<and> assignedSessions (endpointRegistry (manager scenario_second)) ''e2b-sb1'' = [''S1'', ''S2'']
   \<and> activeSandboxes (e2bProvider (manager scenario_second)) = [(''sb1'', ())]
   \<and> map_option ep_id (findAvailableEndpoint (registerEndpoint one_assigned reg_a 2) None)
       = Some ''e2b-a''
   \<and> assignedSessions (registerEndpoint one_assigned reg_a 2) ''e2b-a'' = [''s1'']"
  by code_simp

subsection \<open>The session manager\<close>

lemma manager_startPendingLoop: "manager (startPendingLoop w e ss) = manager w"
  by (induction ss arbitrary: w) (simp_all split: option.splits)

lemma rooms_startPendingLoop: "rooms (startPendingLoop w e ss) = rooms w"
  by (induction ss arbitrary: w) (simp_all split: option.splits)

lemma dbSessions_startPendingLoop: "dbSessions (startPendingLoop w e ss) = dbSessions w"
  by (induction ss arbitrary: w) (simp_all split: option.splits)

lemma manager_startPending: "manager (startPendingSessionsForEndpoint w e) = manager w"
  by (simp add: startPendingSessionsForEndpoint_def manager_startPendingLoop)

lemma rooms_startPending: "rooms (startPendingSessionsForEndpoint w e) = rooms w"
  by (simp add: startPendingSessionsForEndpoint_def rooms_startPendingLoop)

text \<open>A table \<open>m'\<close> retains \<open>m\<close>: no key is lost and the size does not shrink.\<close>

lemma retains_refl: "retains m m"
  by (simp add: retains_def)

lemma retains_trans: "retains a b \<Longrightarrow> retains b c \<Longrightarrow> retains a c"
  by (auto simp: retains_def)

lemma retains_map_set: "retains m (map_set k v m)"
  by (simp add: retains_def map_has_def map_get_set length_map_set)

lemma retains_startSessionOnEndpoint:
  "retains (sessions (manager w)) (sessions (manager (startSessionOnEndpoint w sid options)))"
  by (simp add: startSessionOnEndpoint_def retains_refl retains_map_set split: option.splits)

lemma sessions_spawnNewEndpoint: "sessions (snd (spawnNewEndpoint m env)) = sessions m"
  by (simp add: spawnNewEndpoint_def Let_def split: sum.splits)

lemma sessions_placeEndpoint: "sessions (snd (placeEndpoint m options env)) = sessions m"
  by (simp add: placeEndpoint_def sessions_spawnNewEndpoint split: option.splits)

lemma retains_commitSession:
  "retains (sessions (manager w)) (sessions (manager (snd (commitSession w ep options env tag q i))))"
proof -
  have step: "\<And>w'. retains (sessions (manager w)) (sessions (manager w')) \<Longrightarrow>
      retains (sessions (manager w)) (sessions (manager (startSessionOnEndpoint w' i options)))"
    using retains_startSessionOnEndpoint retains_trans by blast
  show ?thesis
    unfolding commitSession_def Let_def
    by (simp add: retains_map_set step split: option.splits)
qed

lemma retains_createCloudSession:
  "retains (sessions (manager w)) (sessions (manager (snd (createCloudSession w options env))))"
proof -
  have "\<And>ep tag q i. retains (sessions (manager w))
     (sessions (manager (snd (commitSession (w\<lparr>manager := snd (placeEndpoint (manager w) options env)\<rparr>)
         ep options env tag q i))))"
    using retains_commitSession[of "w\<lparr>manager := snd (placeEndpoint (manager w) options env)\<rparr>"]
    by (simp add: sessions_placeEndpoint)
  then show ?thesis
    unfolding createCloudSession_def Let_def
    by (simp add: sessions_placeEndpoint retains_refl split: sum.splits)
qed

lemma retains_sessionStarted: "retains (sessions m) (sessions (sessionStarted m sid t))"
  by (simp add: sessionStarted_def retains_refl retains_map_set split: option.splits)

lemma retains_sessionEnded: "retains (sessions m) (sessions (sessionEnded m sid t))"
  by (simp add: sessionEnded_def retains_refl retains_map_set split: option.splits)

lemma retains_sessionError: "retains (sessions m) (sessions (sessionError m sid t))"
  by (simp add: sessionError_def retains_refl retains_map_set split: option.splits)

lemma retains_register:
  "retains (sessions (manager w)) (sessions (manager (on_endpoint_register w sock d t)))"
  by (simp add: on_endpoint_register_def Let_def manager_startPending retains_refl)

lemma retains_handle: "retains (sessions (manager w)) (sessions (manager (handle w e)))"
proof (cases e)
  case Setup
  then show ?thesis by (simp add: setupCloudEndpointHandlers_def setSocketIOServer_def retains_refl)
next
  case (CreateSession options env)
  then show ?thesis by (simp add: retains_createCloudSession)
next
  case (EndpointRegister sock d t)
  then show ?thesis by (simp add: retains_register)
next
  case (EndpointUnregister k)
  then show ?thesis by (simp add: on_endpoint_unregister_def retains_refl)
next
  case (SessionStartedReport sid t)
  then show ?thesis by (simp add: on_session_started_def retains_sessionStarted)
next
  case (SessionEndedReport sid t)
  then show ?thesis by (simp add: on_session_ended_def retains_sessionEnded)
next
  case (SessionErrorReport sid err t)
  then show ?thesis by (simp add: on_session_error_def retains_sessionError)
next
  case (MessageFromClaude sid msg)
  then show ?thesis by (simp add: on_message_from_claude_def retains_refl)
next
  case (MessageToClaude sock sid msg)
  then show ?thesis by (simp add: on_message_to_claude_def retains_refl split: option.splits)
next
  case (EndpointHeartbeat k t)
  then show ?thesis by (simp add: on_endpoint_heartbeat_def retains_refl)
next
  case (Disconnect sock)
  then show ?thesis by (simp add: retains_refl)
qed

lemma retains_handle_all: "retains (sessions (manager w)) (sessions (manager (handle_all w es)))"
proof (induction es arbitrary: w)
  case Nil
  then show ?case by (simp add: retains_refl)
next
  case (Cons e es)
  show ?case using retains_handle[of w e] Cons.IH[of "handle w e"] retains_trans by fastforce
qed

text \<open>
  C10. No event handled by the server removes a session from the manager's table: a
  session id present before a sequence of events is present after it, whatever status
  the session has reached, so \<open>getStats().totalSessions\<close> never decreases; and that
  number counts the sessions in a terminal state together with all the others.
\<close>

theorem C10_sessions_never_removed:
  "(\<forall>sid. getSession (manager w) sid \<noteq> None \<longrightarrow> getSession (manager (handle_all w es)) sid \<noteq> None)
   \<and> totalSessions (getStats (manager w)) \<le> totalSessions (getStats (manager (handle_all w es)))
   \<and> totalSessions (getStats (manager w))
       = length (filter (\<lambda>s. terminal (cs_status s)) (map_values (sessions (manager w))))
         + length (filter (\<lambda>s. \<not> terminal (cs_status s)) (map_values (sessions (manager w))))"
proof -
  have "retains (sessions (manager w)) (sessions (manager (handle_all w es)))"
    by (rule retains_handle_all)
  then have "\<forall>sid. getSession (manager w) sid \<noteq> None \<longrightarrow> getSession (manager (handle_all w es)) sid \<noteq> None"
    and "totalSessions (getStats (manager w)) \<le> totalSessions (getStats (manager (handle_all w es)))"
    by (simp_all add: retains_def getSession_def map_has_def getStats_def map_size_def)
  moreover have "totalSessions (getStats (manager w))
       = length (filter (\<lambda>s. terminal (cs_status s)) (map_values (sessions (manager w))))
         + length (filter (\<lambda>s. \<not> terminal (cs_status s)) (map_values (sessions (manager w))))"
    by (simp add: getStats_def map_size_def map_values_def o_def sum_length_filter_compl)
  ultimately show ?thesis by blast
qed

theorem C10_sessions_never_removed_witness:
  "getSession (manager scenario_created) ''S1'' \<noteq> None
   \<and> getSession (manager (handle_all scenario_created
        [EndpointRegister ''sock1'' (register_sb1 (Some ''tok1'')) 20,
         SessionStartedReport ''S1'' 30, SessionEndedReport ''S1'' 40,
         EndpointUnregister ''e2b-sb1''])) ''S1'' \<noteq> None
   \<and> totalSessions (getStats (manager scenario_created)) = 1
   \<and> 1 \<le> totalSessions (getStats (manager (handle_all scenario_created
        [EndpointRegister ''sock1'' (register_sb1 (Some ''tok1'')) 20,
         SessionStartedReport ''S1'' 30, SessionEndedReport ''S1'' 40,
         EndpointUnregister ''e2b-sb1''])))"
proof -
  have h: "getSession (manager scenario_created) ''S1'' \<noteq> None"
    by code_simp
  have t: "totalSessions (getStats (manager scenario_created)) = 1"
    by code_simp
  show ?thesis
    using h t
      C10_sessions_never_removed[of scenario_created
        "[EndpointRegister ''sock1'' (register_sb1 (Some ''tok1'')) 20,
          SessionStartedReport ''S1'' 30, SessionEndedReport ''S1'' 40,
          EndpointUnregister ''e2b-sb1'']"]
    by simp
qed






text \<open>
  C4, evaluated. With no endpoint registered \<open>createCloudSession\<close> provisions the
  endpoint \<open>e2b-sb1\<close>, records its token and returns a session in \<open>pending\<close>. When that
  endpoint registers with the token, \<open>session:start\<close> is emitted to its room, but the
  session is still \<open>pending\<close>: \<open>startPendingSessionsForEndpoint\<close> never writes the
  status, unlike \<open>startSessionOnEndpoint\<close>.
\<close>

theorem C4_registration_leaves_session_pending:
  "getAllEndpoints (endpointRegistry (manager server0)) = []
   \<and> map_sum id cs_status (fst (createCloudSession server0 create_options create_env)) = Inr Pending
   \<and> pendingEndpoints (manager scenario_created) = [(''e2b-sb1'', ''tok1'')]
   \<and> validateEndpointToken (manager scenario_created) ''e2b-sb1'' ''tok1''
   \<and> emitted scenario_registered
       = [(ToSocket ''sock1'', EndpointRegistered ''e2b-sb1''),
          (ToRoom ''endpoint:e2b-sb1'', SessionStart ''S1'' Claude None (Some ''hello''))]
   \<and> map_option cs_status (getSession (manager scenario_registered) ''S1'') = Some Pending"
  by code_simp

lemma validateEndpointToken_iff:
  "validateEndpointToken m endpointId token
     \<longleftrightarrow> token \<noteq> [] \<and> map_get endpointId (pendingEndpoints m) = Some token"
  by (auto simp: validateEndpointToken_def split: option.splits)

text \<open>
  C2, as the code has it. \<open>validateEndpointToken\<close> accepts exactly a non-empty token
  equal to the pending token recorded for the endpoint id. An \<open>endpoint:register\<close>
  event that carries a non-empty token which is not the pending token of that endpoint
  id (or for whose id no token is pending) is rejected before anything is written: the
  only effect is the \<open>error\<close> event sent back on the socket. The token is validated only
  if it is provided: when it is missing or empty, as when it matches, the handler goes
  on, the endpoint is registered and the socket joins the endpoint's room.
\<close>

theorem C2_token_checked_when_provided:
  "(rd_authToken d = Some t \<and> t \<noteq> []
      \<and> map_get (rd_endpointId d) (pendingEndpoints (manager w)) \<noteq> Some t
      \<longrightarrow> on_endpoint_register w sock d now
            = w\<lparr>emitted := emitted w @ [(ToSocket sock, ErrorMessage ''Invalid auth token'')]\<rparr>)
   \<and> (rd_authToken d = None \<or> rd_authToken d = Some []
        \<or> rd_authToken d = map_get (rd_endpointId d) (pendingEndpoints (manager w))
      \<longrightarrow> getEndpoint (endpointRegistry (manager (on_endpoint_register w sock d now))) (rd_endpointId d)
            \<noteq> None
          \<and> (sock, endpoint_room (rd_endpointId d)) \<in> set (rooms (on_endpoint_register w sock d now)))
   \<and> (validateEndpointToken (manager w) e t
        \<longleftrightarrow> t \<noteq> [] \<and> map_get e (pendingEndpoints (manager w)) = Some t)"
proof (intro conjI impI)
  assume h: "rd_authToken d = Some t \<and> t \<noteq> []
      \<and> map_get (rd_endpointId d) (pendingEndpoints (manager w)) \<noteq> Some t"
  then have "\<not> validateEndpointToken (manager w) (rd_endpointId d) t"
    by (simp add: validateEndpointToken_iff)
  then show "on_endpoint_register w sock d now
            = w\<lparr>emitted := emitted w @ [(ToSocket sock, ErrorMessage ''Invalid auth token'')]\<rparr>"
    using h by (simp add: on_endpoint_register_def str_or_def truthy_def)
next
  assume "rd_authToken d = None \<or> rd_authToken d = Some []
        \<or> rd_authToken d = map_get (rd_endpointId d) (pendingEndpoints (manager w))"
  then have go: "(\<not> validateEndpointToken (manager w) (rd_endpointId d) (str_or (rd_authToken d) [])
                   \<and> truthy (rd_authToken d)) = False"
    by (cases "rd_authToken d") (auto simp: truthy_def str_or_def validateEndpointToken_iff)
  show "getEndpoint (endpointRegistry (manager (on_endpoint_register w sock d now))) (rd_endpointId d)
            \<noteq> None"
    by (simp only: on_endpoint_register_def Let_def go if_False)
       (simp add: manager_startPending getEndpoint_def registerEndpoint_def registration_of_def
          map_get_set)
  show "(sock, endpoint_room (rd_endpointId d)) \<in> set (rooms (on_endpoint_register w sock d now))"
    by (simp only: on_endpoint_register_def Let_def go if_False)
       (simp add: rooms_startPending)
next
  show "validateEndpointToken (manager w) e t
        \<longleftrightarrow> t \<noteq> [] \<and> map_get e (pendingEndpoints (manager w)) = Some t"
    by (rule validateEndpointToken_iff)
qed

theorem C2_token_checked_when_provided_witness:
  "map_get ''e2b-sb1'' (pendingEndpoints (manager scenario_created)) = Some ''tok1''
   \<and> on_endpoint_register scenario_created ''sock1'' (register_sb1 (Some ''bad'')) 20
       = scenario_created\<lparr>emitted := emitted scenario_created @
                             [(ToSocket ''sock1'', ErrorMessage ''Invalid auth token'')]\<rparr>
   \<and> getEndpoint (endpointRegistry (manager
        (on_endpoint_register scenario_created ''sock1'' (register_sb1 (Some [])) 20))) ''e2b-sb1''
       \<noteq> None
   \<and> getEndpoint (endpointRegistry (manager
        (on_endpoint_register scenario_created ''sock1'' (register_sb1 (Some ''tok1'')) 20))) ''e2b-sb1''
       \<noteq> None
   \<and> \<not> validateEndpointToken (manager scenario_created) ''e2b-sb1'' ''bad''
   \<and> validateEndpointToken (manager scenario_created) ''e2b-sb1'' ''tok1''"
proof -
  have p: "map_get ''e2b-sb1'' (pendingEndpoints (manager scenario_created)) = Some ''tok1''"
    by code_simp
  have a: "rd_authToken (register_sb1 x) = x" and b: "rd_endpointId (register_sb1 x) = ''e2b-sb1''" for x
    by (simp_all add: register_sb1_def)
  show ?thesis
    using p
      C2_token_checked_when_provided[of "register_sb1 (Some ''bad'')" "''bad''" scenario_created
        "''sock1''" 20 "''e2b-sb1''"]
      C2_token_checked_when_provided[of "register_sb1 (Some [])" "''tok1''" scenario_created
        "''sock1''" 20 "''e2b-sb1''"]
      C2_token_checked_when_provided[of "register_sb1 (Some ''tok1'')" "''tok1''" scenario_created
        "''sock1''" 20 "''e2b-sb1''"]
    by (simp add: a b)
qed

text \<open>
  C2 as stated fails: a registration for \<open>e2b-sb1\<close> without a token does not match the
  pending token, yet the endpoint is registered, its socket joins the room and the
  pending session is sent \<open>session:start\<close>.
\<close>

theorem C2_counterexample:
  "\<not> validateEndpointToken (manager scenario_created) ''e2b-sb1'' []
   \<and> getEndpoint (endpointRegistry (manager scenario_created)) ''e2b-sb1'' = None
   \<and> map_option ep_status (getEndpoint (endpointRegistry (manager
        (on_endpoint_register scenario_created ''sock1'' (register_sb1 None) 20))) ''e2b-sb1'')
       = Some EpOnline
   \<and> rooms (on_endpoint_register scenario_created ''sock1'' (register_sb1 None) 20)
       = [(''sock1'', ''endpoint:e2b-sb1'')]
   \<and> emitted (on_endpoint_register scenario_created ''sock1'' (register_sb1 None) 20)
       = [(ToSocket ''sock1'', EndpointRegistered ''e2b-sb1''),
          (ToRoom ''endpoint:e2b-sb1'', SessionStart ''S1'' Claude None (Some ''hello''))]"
  by code_simp

text \<open>
  C3, as the code has it. \<open>sessionStarted\<close>, \<open>sessionEnded\<close> and \<open>sessionError\<close> check
  no transition: on a known session they set the status to \<open>running\<close>, \<open>ended\<close> and
  \<open>error\<close> whatever the status was (a terminal one included) and stamp \<open>startedAt\<close> or
  \<open>endedAt\<close>; on an unknown id they leave the manager as it is.
\<close>

theorem C3_reports_set_status_unchecked:
  "(getSession m sid = None \<longrightarrow>
      sessionStarted m sid t = m \<and> sessionEnded m sid t = m \<and> sessionError m sid t = m)
   \<and> (\<forall>s. getSession m sid = Some s \<longrightarrow>
         getSession (sessionStarted m sid t) sid = Some (s\<lparr>cs_status := Running, cs_startedAt := Some t\<rparr>)
         \<and> getSession (sessionEnded m sid t) sid = Some (s\<lparr>cs_status := Ended, cs_endedAt := Some t\<rparr>)
         \<and> getSession (sessionError m sid t) sid = Some (s\<lparr>cs_status := Errored, cs_endedAt := Some t\<rparr>))"
  by (simp add: getSession_def sessionStarted_def sessionEnded_def sessionError_def map_get_set)

theorem C3_reports_set_status_unchecked_witness:
  "getSession (manager scenario_created) ''S2'' = None
   \<and> sessionStarted (manager scenario_created) ''S2'' 30 = manager scenario_created
   \<and> map_option cs_status (getSession (manager scenario_created) ''S1'') = Some Pending
   \<and> map_option cs_status (getSession (sessionStarted (manager scenario_created) ''S1'' 30) ''S1'')
       = Some Running"
proof -
  have n: "getSession (manager scenario_created) ''S2'' = None"
    by code_simp
  have s: "getSession (manager scenario_created) ''S1''
     = Some \<lparr>cs_sessionId = ''S1'', cs_userId = ''u1'', cs_endpointId = ''e2b-sb1'',
             cs_status = Pending, cs_createdAt = 10, cs_startedAt = None, cs_endedAt = None,
             cs_options = Some \<lparr>opt_agentType = Claude, opt_workingDirectory = None,
                                opt_initialMessage = Some ''hello''\<rparr>\<rparr>"
    by code_simp
  show ?thesis
    using n s
      C3_reports_set_status_unchecked[of "manager scenario_created" "''S2''" 30]
      C3_reports_set_status_unchecked[of "manager scenario_created" "''S1''" 30]
    by simp
qed

text \<open>
  C3 as stated fails: \<open>sessionStarted\<close> on a session that has ended is not rejected, the
  session is \<open>running\<close> again.
\<close>

theorem C3_counterexample:
  "map_option cs_status
       (getSession (sessionEnded (manager scenario_registered) ''S1'' 40) ''S1'') = Some Ended
   \<and> map_option cs_status
       (getSession (sessionStarted (sessionEnded (manager scenario_registered) ''S1'' 40) ''S1'' 50)
          ''S1'') = Some Running"
  by code_simp










subsection \<open>The runner\<close>

text \<open>
  C9, evaluated. A runner with \<open>maxConcurrentSessions = 1\<close> that runs \<open>S1\<close> and receives
  \<open>session:start\<close> for \<open>S1\<close> again emits \<open>session:error\<close>: the capacity test comes before
  the test for a session that already exists. No process is spawned.
\<close>

theorem C9_duplicate_start_at_capacity_emits_error:
  "map_has ''S1'' (rn_activeSessions runner_busy)
   \<and> rn_sent (startSession runner_busy start_S1 (Inr 43))
       = [EmitSessionError ''S1'' ''Max concurrent sessions reached'']
   \<and> rn_spawned (startSession runner_busy start_S1 (Inr 43)) = rn_spawned runner_busy
   \<and> rn_activeSessions (startSession runner_busy start_S1 (Inr 43)) = rn_activeSessions runner_busy"
  by code_simp

end
